theory Spec2Isabelle
  imports Main
begin

section \<open>JavaScript values\<close>

text \<open>
  The values the data-access layer handles at run time. An array and a plain object carry
  the identity of the heap object they are (a \<open>ref\<close>): two occurrences with the same
  \<open>ref\<close> are the same object, two occurrences with different \<open>ref\<close>s are different
  objects even when their contents agree. Identity is what \<open>Set\<close> and
  \<open>Array.prototype.includes\<close> compare for objects. The entries of a plain object are
  kept in enumeration order. Strings are ASCII. Boxed \<open>String\<close> and \<open>Number\<close> objects
  and instances of other classes are not among the values modelled.

  A number is given by its canonical string, the one \<open>Number.prototype.toString\<close>
  returns for it: \<open>7\<close>, \<open>-1.5\<close>, \<open>1e+21\<close>, \<open>NaN\<close>, \<open>Infinity\<close>. That string is all
  the code can observe of a number: two numbers are the same for \<open>Set\<close> and
  \<open>includes\<close> exactly when their strings are equal (the two zeros, which both print as
  \<open>0\<close>, are the same there, and \<open>NaN\<close> is the same as itself), and a number is falsy
  exactly when its string is \<open>0\<close> or \<open>NaN\<close>.

  \<open>VInherited k\<close> is what reading the property \<open>k\<close> gives on an object that has no
  own property \<open>k\<close> when \<open>k\<close> names a member of \<open>Object.prototype\<close>: a built-in
  function, or \<open>Object.prototype\<close> itself for \<open>__proto__\<close>.
\<close>

type_synonym ref = nat

datatype number = Number (toString: string)

datatype val =
    VUndefined
  | VNull
  | VBool bool
  | VNum number
  | VStr string
  | VArr ref "val list"
  | VObj ref "(string \<times> val) list"
  | VFun ref
  | VInherited string

datatype error =
    TypeError
  | UnsupportedValueType
  | UnknownLogicalOperator
  | NoPreviousData
  | OutsideModel

text \<open>
  \<open>TypeError\<close> is the exception the JavaScript engine itself throws (spreading a value
  that is not iterable, calling a property that is not a function, reading a property of
  \<open>undefined\<close>); \<open>UnsupportedValueType\<close>, \<open>UnknownLogicalOperator\<close> and
  \<open>NoPreviousData\<close> are the three \<open>throw new Error(...)\<close> of the source.
  \<open>OutsideModel\<close> is not an exception: it marks the few runs whose outcome depends on
  JavaScript behaviour that these values do not determine: the body or the source text of
  a function value.
\<close>

subsection \<open>Truthiness, property access, iteration\<close>

fun truthy :: "val \<Rightarrow> bool" where
  "truthy VUndefined = False"
| "truthy VNull = False"
| "truthy (VBool b) = b"
| "truthy (VNum n) = (toString n \<noteq> ''0'' \<and> toString n \<noteq> ''NaN'')"
| "truthy (VStr s) = (s \<noteq> [])"
| "truthy (VArr r xs) = True"
| "truthy (VObj r kvs) = True"
| "truthy (VFun r) = True"
| "truthy (VInherited k) = True"

fun isArray :: "val \<Rightarrow> bool" where
  "isArray (VArr r xs) = True"
| "isArray v = False"

fun isString :: "val \<Rightarrow> bool" where
  \<comment> \<open>\<open>typeof v === 'string'\<close>\<close>
  "isString (VStr s) = True"
| "isString v = False"

definition prototype_members :: "string list" where
  \<comment> \<open>The property names that every plain object inherits from \<open>Object.prototype\<close>.\<close>
  "prototype_members =
     [''constructor'', ''__proto__'', ''hasOwnProperty'', ''isPrototypeOf'',
      ''propertyIsEnumerable'', ''toLocaleString'', ''toString'', ''valueOf'',
      ''__defineGetter__'', ''__defineSetter__'', ''__lookupGetter__'', ''__lookupSetter__'']"

definition get :: "(string \<times> val) list \<Rightarrow> string \<Rightarrow> val" where
  \<comment> \<open>\<open>obj[k]\<close> on the entries of a plain object: an own property first, then
      \<open>Object.prototype\<close>; any other missing key reads as \<open>undefined\<close>.\<close>
  "get kvs k =
     (case map_of kvs k of
        Some v \<Rightarrow> v
      | None \<Rightarrow> if k \<in> set prototype_members then VInherited k else VUndefined)"

fun callable :: "val \<Rightarrow> bool" where
  \<comment> \<open>\<open>typeof v === 'function'\<close>\<close>
  "callable (VFun r) = True"
| "callable (VInherited k) = (k \<noteq> ''__proto__'')"
| "callable v = False"

fun property :: "val \<Rightarrow> string \<Rightarrow> val" where
  \<comment> \<open>\<open>v?.k\<close> for the two property names the code reads, \<open>add\<close> and \<open>remove\<close>: only a
      plain object can have them.\<close>
  "property (VObj r kvs) k = get kvs k"
| "property v k = VUndefined"

fun iterate :: "val \<Rightarrow> error + val list" where
  \<comment> \<open>\<open>[...v]\<close>: arrays and strings are iterable, nothing else among these values is.\<close>
  "iterate (VArr r xs) = Inr xs"
| "iterate (VStr s) = Inr (map (\<lambda>c. VStr [c]) s)"
| "iterate v = Inl TypeError"

subsection \<open>Array indices as property keys, \<open>join\<close>, conversion to a string\<close>

definition digit_char :: "nat \<Rightarrow> char" where
  "digit_char d = ''0123456789'' ! (d mod 10)"

function index_toString :: "nat \<Rightarrow> string" where
  \<comment> \<open>The property key of an array index (an integer below \<open>2^32\<close>): its decimal digits.\<close>
  "index_toString n =
     (if n < 10 then [digit_char n] else index_toString (n div 10) @ [digit_char (n mod 10)])"
  by pat_completeness auto
termination
  by (relation "measure id") auto

fun js_join :: "string \<Rightarrow> string list \<Rightarrow> string" where
  \<comment> \<open>\<open>Array.prototype.join\<close> on strings.\<close>
  "js_join sep [] = []"
| "js_join sep [x] = x"
| "js_join sep (x # y # zs) = x @ sep @ js_join sep (y # zs)"

fun sequence :: "(error + 'a) list \<Rightarrow> error + 'a list" where
  \<comment> \<open>The results of a callback run on every element in turn: the first exception ends
      the run.\<close>
  "sequence [] = Inr []"
| "sequence (Inl e # rs) = Inl e"
| "sequence (Inr a # rs) = (case sequence rs of Inl e \<Rightarrow> Inl e | Inr as \<Rightarrow> Inr (a # as))"

fun js_to_string :: "val \<Rightarrow> error + string" where
  \<comment> \<open>The abstract operation ToString. An array prints as its elements joined by commas,
      \<open>null\<close> and \<open>undefined\<close> elements as nothing. A plain object goes through its
      \<open>toString\<close>, then its \<open>valueOf\<close>: the inherited \<open>toString\<close> gives
      \<open>[object Object]\<close>, an own one that is a function runs code these values do not
      hold, and with an own \<open>toString\<close> that is no function the inherited \<open>valueOf\<close>
      gives back the object, which is no primitive.\<close>
  "js_to_string VUndefined = Inr ''undefined''"
| "js_to_string VNull = Inr ''null''"
| "js_to_string (VBool b) = Inr (if b then ''true'' else ''false'')"
| "js_to_string (VNum n) = Inr (toString n)"
| "js_to_string (VStr s) = Inr s"
| "js_to_string (VArr r xs) =
     (case sequence (map (\<lambda>x. if x = VUndefined \<or> x = VNull then Inr [] else js_to_string x) xs) of
        Inl e \<Rightarrow> Inl e
      | Inr ss \<Rightarrow> Inr (js_join '','' ss))"
| "js_to_string (VObj r kvs) =
     (case map_of kvs ''toString'' of
        None \<Rightarrow> Inr ''[object Object]''
      | Some m \<Rightarrow>
          if callable m then Inl OutsideModel
          else (case map_of kvs ''valueOf'' of
                  None \<Rightarrow> Inl TypeError
                | Some m' \<Rightarrow> if callable m' then Inl OutsideModel else Inl TypeError))"
| "js_to_string (VFun r) = Inl OutsideModel"
| "js_to_string (VInherited k) = Inl OutsideModel"

definition string_includes :: "string \<Rightarrow> string \<Rightarrow> bool" where
  \<comment> \<open>\<open>String.prototype.includes\<close> on two strings: the second occurs in the first.\<close>
  "string_includes s t = list_ex (\<lambda>i. take (length t) (drop i s) = t) [0..<Suc (length s)]"

section \<open>The value codec: \<open>toDynamoDBValue\<close> (utils/helpers.ts)\<close>

text \<open>
  The result of the codec is what the query descriptor stores in its attribute-value map
  (a \<open>Record<string, AttributeValue>\<close> in the source): a string, a boolean, \<open>null\<close>, or
  an array of such.
\<close>

datatype attribute_value =
    AStr string
  | ABool bool
  | ANull
  | AList "attribute_value list"

fun toDynamoDBValue :: "val \<Rightarrow> error + attribute_value" where
  "toDynamoDBValue (VStr s) = Inr (AStr s)"
| "toDynamoDBValue (VNum n) = Inr (AStr (toString n))"
| "toDynamoDBValue (VArr r xs) =
     (case sequence (map toDynamoDBValue xs) of
        Inl e \<Rightarrow> Inl e
      | Inr ys \<Rightarrow> Inr (AList ys))"
| "toDynamoDBValue (VBool b) = Inr (ABool b)"
| "toDynamoDBValue VNull = Inr ANull"
| "toDynamoDBValue VUndefined = Inr ANull"
| "toDynamoDBValue (VObj r kvs) = Inl UnsupportedValueType"
| "toDynamoDBValue (VFun r) = Inl UnsupportedValueType"
| "toDynamoDBValue (VInherited k) = Inl UnsupportedValueType"

fun supported :: "val \<Rightarrow> bool" where
  \<comment> \<open>The inputs the codec is specified for: strings, numbers, booleans, \<open>null\<close>,
      \<open>undefined\<close>, and arrays of supported values.\<close>
  "supported (VStr s) = True"
| "supported (VNum n) = True"
| "supported (VBool b) = True"
| "supported VNull = True"
| "supported VUndefined = True"
| "supported (VArr r xs) = list_all supported xs"
| "supported (VObj r kvs) = False"
| "supported (VFun r) = False"
| "supported (VInherited k) = False"

fun encoded :: "val \<Rightarrow> attribute_value" where
  \<comment> \<open>The encoding in the specification's words: a string and a boolean unchanged, a
      number as its string, \<open>null\<close> and \<open>undefined\<close> as null, an array element by
      element. (On the other values, which have no encoding, it is null.)\<close>
  "encoded (VStr s) = AStr s"
| "encoded (VBool b) = ABool b"
| "encoded (VNum n) = AStr (toString n)"
| "encoded (VArr r xs) = AList (map encoded xs)"
| "encoded v = ANull"

section \<open>The update-merge engine: \<open>updateItem\<close> (DynamoODM.ts)\<close>

subsection \<open>Objects as entry lists\<close>

fun put :: "('k \<times> 'v) list \<Rightarrow> 'k \<Rightarrow> 'v \<Rightarrow> ('k \<times> 'v) list" where
  \<comment> \<open>\<open>obj[k] = v\<close>, and \<open>{ ...obj, [k]: v }\<close>: an existing key keeps its place, a new one
      goes last. (JavaScript enumerates keys that are array indices before the others;
      the entry lists here are not reordered for them, and nothing below depends on the
      order of entries.)\<close>
  "put [] k v = [(k, v)]"
| "put ((k', v') # kvs) k v = (if k' = k then (k, v) # kvs else (k', v') # put kvs k v)"

definition hasOwnProperty :: "('k \<times> 'v) list \<Rightarrow> 'k \<Rightarrow> bool" where
  "hasOwnProperty kvs k = (map_of kvs k \<noteq> None)"

fun elements :: "val \<Rightarrow> val list" where
  "elements (VArr r xs) = xs"
| "elements v = []"

fun own_entries :: "val \<Rightarrow> (string \<times> val) list" where
  \<comment> \<open>The own enumerable properties that an object spread \<open>{ ...v }\<close> copies.\<close>
  "own_entries (VObj r kvs) = kvs"
| "own_entries (VArr r xs) = map (\<lambda>i. (index_toString i, xs ! i)) [0..<length xs]"
| "own_entries (VStr s) = map (\<lambda>i. (index_toString i, VStr [s ! i])) [0..<length s]"
| "own_entries v = []"

subsection \<open>\<open>Set\<close> and \<open>includes\<close>: the SameValueZero comparison\<close>

fun ref_of :: "val \<Rightarrow> ref option" where
  "ref_of (VArr r xs) = Some r"
| "ref_of (VObj r kvs) = Some r"
| "ref_of (VFun r) = Some r"
| "ref_of v = None"

definition same_value_zero :: "val \<Rightarrow> val \<Rightarrow> bool" where
  \<comment> \<open>Primitives are compared by value, objects (arrays, plain objects, functions) by
      identity.\<close>
  "same_value_zero a b =
     (case (ref_of a, ref_of b) of
        (Some r, Some r') \<Rightarrow> r = r'
      | (None, None) \<Rightarrow> a = b
      | _ \<Rightarrow> False)"

definition array_includes :: "val list \<Rightarrow> val \<Rightarrow> bool" where
  "array_includes xs v = list_ex (\<lambda>x. same_value_zero x v) xs"

definition set_add :: "val list \<Rightarrow> val \<Rightarrow> val list" where
  \<comment> \<open>\<open>Set.prototype.add\<close> on a set kept in insertion order.\<close>
  "set_add s v = (if array_includes s v then s else s @ [v])"

definition new_Set :: "val list \<Rightarrow> val list" where
  \<comment> \<open>\<open>[...new Set(xs)]\<close>: the elements of the set, in insertion order.\<close>
  "new_Set xs = foldl set_add [] xs"

fun set_iterable :: "val \<Rightarrow> error + val list" where
  \<comment> \<open>What \<open>new Set(v)\<close> reads: nothing for \<open>undefined\<close> and \<open>null\<close>, else it iterates.\<close>
  "set_iterable VUndefined = Inr []"
| "set_iterable VNull = Inr []"
| "set_iterable v = iterate v"

definition spread2 :: "val \<Rightarrow> val \<Rightarrow> error + val list" where
  \<comment> \<open>\<open>[...a, ...b]\<close>\<close>
  "spread2 a b =
     (case iterate a of
        Inl e \<Rightarrow> Inl e
      | Inr xs \<Rightarrow> (case iterate b of Inl e \<Rightarrow> Inl e | Inr ys \<Rightarrow> Inr (xs @ ys)))"

fun not_removed :: "val \<Rightarrow> val \<Rightarrow> error + bool" where
  \<comment> \<open>The callback \<open>(v) => !remove?.includes(v)\<close>, with \<open>remove\<close> first: an array
      compares, a string converts \<open>v\<close> to a string and searches for it, and nothing else
      among these values has a method \<open>includes\<close>, unless it is an own property.\<close>
  "not_removed VUndefined v = Inr True"
| "not_removed VNull v = Inr True"
| "not_removed (VArr r xs) v = Inr (\<not> array_includes xs v)"
| "not_removed (VStr s) v =
     (case js_to_string v of Inl e \<Rightarrow> Inl e | Inr t \<Rightarrow> Inr (\<not> string_includes s t))"
| "not_removed (VObj r kvs) v =
     (if callable (get kvs ''includes'') then Inl OutsideModel else Inl TypeError)"
| "not_removed (VNum n) v = Inl TypeError"
| "not_removed (VBool b) v = Inl TypeError"
| "not_removed (VFun f) v = Inl TypeError"
| "not_removed (VInherited k) v = Inl TypeError"

fun filter_removed :: "val \<Rightarrow> val list \<Rightarrow> error + val list" where
  \<comment> \<open>\<open>arrValue.filter((v) => !remove?.includes(v))\<close>\<close>
  "filter_removed remove [] = Inr []"
| "filter_removed remove (v # vs) =
     (case not_removed remove v of
        Inl e \<Rightarrow> Inl e
      | Inr keep \<Rightarrow>
          (case filter_removed remove vs of
             Inl e \<Rightarrow> Inl e
           | Inr ws \<Rightarrow> Inr (if keep then v # ws else ws)))"

subsection \<open>The loop over the update document\<close>

text \<open>
  The loop reads and writes three objects: \<open>previousData\<close> (the item read from the
  store), \<open>data\<close> (the caller's update document) and \<open>requestData\<close> (the item to
  write, first a shallow copy of \<open>previousData\<close>). \<open>next_ref\<close> is the identity the next
  object created by the loop gets. The lodash functions \<open>_.merge\<close> and \<open>_.unset\<close> are
  not part of the repository: \<open>lmerge target source\<close> and \<open>lunset target path\<close> stand
  for the target object as the lodash call leaves it. Both mutate in place, so the new
  contents show in \<open>requestData\<close> and, where \<open>previousData\<close> holds the same object,
  there too.
\<close>

record merge_state =
  previousData :: "(string \<times> val) list"
  data :: "(string \<times> val) list"
  requestData :: "(string \<times> val) list"
  next_ref :: ref

definition mutate_target :: "string \<Rightarrow> val \<Rightarrow> merge_state \<Rightarrow> merge_state" where
  \<comment> \<open>The object at \<open>requestData[attr]\<close> has been mutated in place into \<open>new\<close>; a
      primitive there cannot be mutated, and what lodash does to a built-in reached
      through the prototype leaves the three objects as they are.\<close>
  "mutate_target attr new s =
     (let target = get (requestData s) attr in
      if ref_of target = None then s
      else s\<lparr>previousData :=
               (if same_value_zero (get (previousData s) attr) target
                then put (previousData s) attr new else previousData s),
             requestData := put (requestData s) attr new\<rparr>)"

definition array_directive :: "val \<Rightarrow> bool" where
  "array_directive d = (isArray (property d ''add'') \<or> isArray (property d ''remove''))"

definition object_add_directive :: "val \<Rightarrow> bool" where
  \<comment> \<open>\<open>Object.keys\<close> of a truthy value is an array, which is truthy.\<close>
  "object_add_directive d = (truthy (property d ''add'') \<and> \<not> isArray (property d ''add''))"

definition object_remove_directive :: "val \<Rightarrow> bool" where
  "object_remove_directive d =
     (truthy (property d ''remove'') \<and> isString (property d ''remove''))"

definition array_merge :: "string \<Rightarrow> merge_state \<Rightarrow> error + merge_state" where
  "array_merge attr s =
     (let add = property (get (data s) attr) ''add'';
          remove = property (get (data s) attr) ''remove'';
          s1 = (if add \<noteq> VUndefined \<and> \<not> truthy (get (previousData s) attr)
                then s\<lparr>previousData := put (previousData s) attr (VArr (next_ref s) []),
                       next_ref := Suc (next_ref s)\<rparr>
                else s)
      in case (if truthy add then spread2 add (get (previousData s1) attr)
               else set_iterable (get (previousData s1) attr)) of
           Inl e \<Rightarrow> Inl e
         | Inr src \<Rightarrow>
             (case filter_removed remove (new_Set src) of
                Inl e \<Rightarrow> Inl e
              | Inr merged \<Rightarrow>
                  Inr (s1\<lparr>data := put (data s1) attr (VArr (next_ref s1) merged),
                          requestData :=
                            (if length merged > 0
                             then put (requestData s1) attr (VArr (next_ref s1) merged)
                             else requestData s1),
                          next_ref := Suc (next_ref s1)\<rparr>)))"

definition object_add :: "(val \<Rightarrow> val \<Rightarrow> val) \<Rightarrow> string \<Rightarrow> merge_state \<Rightarrow> merge_state" where
  "object_add lmerge attr s =
     (let add = property (get (data s) attr) ''add'';
          s1 = (if \<not> truthy (get (requestData s) attr)
                then s\<lparr>requestData :=
                         put (requestData s) attr
                           (VObj (next_ref s)
                              (foldl (\<lambda>acc (k, v). put acc k v) []
                                 (own_entries (get (requestData s) attr) @ own_entries add))),
                       next_ref := Suc (next_ref s)\<rparr>
                else s)
      in mutate_target attr (lmerge (get (requestData s1) attr) add) s1)"

definition object_remove :: "(val \<Rightarrow> string \<Rightarrow> val) \<Rightarrow> string \<Rightarrow> merge_state \<Rightarrow> merge_state" where
  "object_remove lunset attr s =
     (case property (get (data s) attr) ''remove'' of
        VStr path \<Rightarrow> mutate_target attr (lunset (get (requestData s) attr) path) s
      | _ \<Rightarrow> s)"

definition update_attr ::
  "(val \<Rightarrow> val \<Rightarrow> val) \<Rightarrow> (val \<Rightarrow> string \<Rightarrow> val) \<Rightarrow> string \<Rightarrow> merge_state \<Rightarrow> error + merge_state"
where
  \<comment> \<open>The body of \<open>for (const attr in data)\<close>.\<close>
  "update_attr lmerge lunset attr s =
     (if array_directive (get (data s) attr) then array_merge attr s
      else if object_add_directive (get (data s) attr) then Inr (object_add lmerge attr s)
      else if object_remove_directive (get (data s) attr) then Inr (object_remove lunset attr s)
      else Inr (s\<lparr>requestData := put (requestData s) attr (get (data s) attr)\<rparr>))"

fun update_loop ::
  "(val \<Rightarrow> val \<Rightarrow> val) \<Rightarrow> (val \<Rightarrow> string \<Rightarrow> val) \<Rightarrow> string list \<Rightarrow> merge_state \<Rightarrow> error + merge_state"
where
  "update_loop lmerge lunset [] s = Inr s"
| "update_loop lmerge lunset (attr # attrs) s =
     (case update_attr lmerge lunset attr s of
        Inl e \<Rightarrow> Inl e
      | Inr s' \<Rightarrow> update_loop lmerge lunset attrs s')"

definition updateItem ::
  "(val \<Rightarrow> val \<Rightarrow> val) \<Rightarrow> (val \<Rightarrow> string \<Rightarrow> val) \<Rightarrow> string \<Rightarrow> ref \<Rightarrow>
   (string \<times> val) list option \<Rightarrow> (string \<times> val) list \<Rightarrow>
   error + ((string \<times> val) list \<times> merge_state)"
where
  \<comment> \<open>From the item that \<open>getItem\<close> returned (\<open>None\<close>: no item) and the update document to
      the attributes handed to \<open>putItem\<close>, with the three objects as the loop left them.
      \<open>timeStamp\<close> is the clock reading, \<open>fresh\<close> the first unused object identity.\<close>
  "updateItem lmerge lunset timeStamp fresh previous upd =
     (case previous of
        None \<Rightarrow> Inl NoPreviousData
      | Some prev \<Rightarrow>
          (case update_loop lmerge lunset (map fst upd)
                  \<lparr>previousData = prev, data = upd, requestData = prev, next_ref = fresh\<rparr> of
             Inl e \<Rightarrow> Inl e
           | Inr s \<Rightarrow> Inr (put (requestData s) ''updated_at'' (VStr timeStamp), s)))"

text \<open>
  What lodash does on flat objects (plain objects whose property values are primitives),
  for running the engine on such inputs: \<open>_.merge\<close> assigns every source property
  except an \<open>undefined\<close> one whose key the target already has; \<open>_.unset\<close> with a path
  of one key deletes that key.
\<close>

definition merge_flat :: "val \<Rightarrow> val \<Rightarrow> val" where
  "merge_flat target source =
     (case target of
        VObj r kvs \<Rightarrow>
          VObj r (foldl (\<lambda>acc (k, v). if v = VUndefined \<and> hasOwnProperty acc k then acc else put acc k v)
                    kvs (own_entries source))
      | _ \<Rightarrow> target)"

definition unset_flat :: "val \<Rightarrow> string \<Rightarrow> val" where
  "unset_flat target path =
     (case target of
        VObj r kvs \<Rightarrow> VObj r (filter (\<lambda>(k, v). k \<noteq> path) kvs)
      | _ \<Rightarrow> target)"

subsection \<open>The merge policy in the specification's words\<close>





subsection \<open>Shapes of inputs and views of a run\<close>




text \<open>
  Three views of a run: the entry of one attribute in the attributes handed to
  \<open>putItem\<close> (\<open>None\<close>: the attribute is absent), the elements of that entry, and the two
  input objects as the run left them.
\<close>

definition merged_attr ::
  "string \<Rightarrow> error + ((string \<times> val) list \<times> merge_state) \<Rightarrow> error + val option" where
  "merged_attr attr res =
     (case res of Inl e \<Rightarrow> Inl e | Inr (attributes, s) \<Rightarrow> Inr (map_of attributes attr))"

definition merged_elements ::
  "string \<Rightarrow> error + ((string \<times> val) list \<times> merge_state) \<Rightarrow> error + val list" where
  "merged_elements attr res =
     (case res of Inl e \<Rightarrow> Inl e | Inr (attributes, s) \<Rightarrow> Inr (elements (get attributes attr)))"

definition inputs_after ::
  "error + ((string \<times> val) list \<times> merge_state) \<Rightarrow>
   error + ((string \<times> val) list \<times> (string \<times> val) list)" where
  "inputs_after res =
     (case res of Inl e \<Rightarrow> Inl e | Inr (attributes, s) \<Rightarrow> Inr (previousData s, data s))"

lemmas engine_defs =
  updateItem_def update_attr_def array_directive_def object_add_directive_def
  object_remove_directive_def array_merge_def object_add_def object_remove_def
  mutate_target_def Let_def get_def prototype_members_def spread2_def new_Set_def set_add_def array_includes_def
  same_value_zero_def merged_attr_def merged_elements_def inputs_after_def

section \<open>The list-query compiler: \<open>getList\<close> (DynamoODM.ts)\<close>

subsection \<open>Its helpers (utils/helpers.ts)\<close>

definition symbols :: "char list" where
  \<comment> \<open>The character class of the regular expression in \<open>replaceSymbol\<close>; its last six
      members are the ASCII characters that \<open>\s\<close> matches.\<close>
  "symbols =
     ''{}[]/?.,;:|)*~'' @ [CHR 0x60] @ ''!^-_+<>@#$%&'' @ [CHR 0x5C] @ ''=('' @
     [CHR 0x27, CHR 0x22] @
     [CHR 0x20, CHR 0x09, CHR 0x0A, CHR 0x0B, CHR 0x0C, CHR 0x0D]"

fun expand_replacer :: "string \<Rightarrow> string \<Rightarrow> string \<Rightarrow> string \<Rightarrow> string" where
  \<comment> \<open>The replacement text of one match of \<open>String.prototype.replace\<close>, for a pattern
      without capture groups: \<open>$$\<close> is a dollar sign, \<open>$&\<close> the match, \<open>$`\<close> the text
      before it, \<open>$'\<close> the text after it; every other character stands for itself.\<close>
  "expand_replacer preceding matched following [] = []"
| "expand_replacer preceding matched following [c] = [c]"
| "expand_replacer preceding matched following (c # d # rest) =
     (if c = CHR ''$'' \<and> d = CHR ''$'' then CHR ''$'' # expand_replacer preceding matched following rest
      else if c = CHR ''$'' \<and> d = CHR ''&'' then matched @ expand_replacer preceding matched following rest
      else if c = CHR ''$'' \<and> d = CHR 0x60 then preceding @ expand_replacer preceding matched following rest
      else if c = CHR ''$'' \<and> d = CHR 0x27 then following @ expand_replacer preceding matched following rest
      else c # expand_replacer preceding matched following (d # rest))"

fun replace_symbols :: "string \<Rightarrow> string \<Rightarrow> string \<Rightarrow> string" where
  \<comment> \<open>The global replace, on what is left of the string; \<open>preceding\<close> is what came first.\<close>
  "replace_symbols preceding [] replacer = []"
| "replace_symbols preceding (c # rest) replacer =
     (if c \<in> set symbols then expand_replacer preceding [c] rest replacer else [c])
     @ replace_symbols (preceding @ [c]) rest replacer"

definition replaceSymbol :: "string \<Rightarrow> string \<Rightarrow> string" where
  "replaceSymbol str replacer = replace_symbols [] str replacer"

definition isIterableArray :: "'a list \<Rightarrow> bool" where
  "isIterableArray xs = (length xs > 0)"

definition toUpperCase :: "string \<Rightarrow> string" where
  "toUpperCase s =
     map (\<lambda>c. case map_of (zip ''abcdefghijklmnopqrstuvwxyz'' ''ABCDEFGHIJKLMNOPQRSTUVWXYZ'') c of
               None \<Rightarrow> c | Some u \<Rightarrow> u) s"

definition toLowerCase :: "string \<Rightarrow> string" where
  "toLowerCase s =
     map (\<lambda>c. case map_of (zip ''ABCDEFGHIJKLMNOPQRSTUVWXYZ'' ''abcdefghijklmnopqrstuvwxyz'') c of
               None \<Rightarrow> c | Some l \<Rightarrow> l) s"

definition convertLogicalOperator :: "string \<Rightarrow> error + string" where
  "convertLogicalOperator operator =
     (let upperCaseOperator = toUpperCase operator in
      if upperCaseOperator = ''AND'' then Inr ''AND''
      else if upperCaseOperator = ''OR'' then Inr ''OR''
      else Inl UnknownLogicalOperator)"

definition setOperator :: "string \<Rightarrow> string \<Rightarrow> string \<Rightarrow> string \<Rightarrow> string" where
  "setOperator keyName valueName value2Name operator =
     (let op = toLowerCase operator in
      if op = ''begins_with'' \<or> op = ''contains'' then op @ ''('' @ keyName @ '', '' @ valueName @ '')''
      else if op = ''neq'' then keyName @ '' <> '' @ valueName
      else if op = ''less_than'' then keyName @ '' < '' @ valueName
      else if op = ''less_or_equal'' then keyName @ '' <= '' @ valueName
      else if op = ''greater_than'' then keyName @ '' > '' @ valueName
      else if op = ''greater_or_equal'' then keyName @ '' >= '' @ valueName
      else if op = ''between'' then keyName @ '' BETWEEN '' @ valueName @ '' AND '' @ value2Name
      else if op = ''attribute_not_exists'' then ''attribute_not_exists('' @ keyName @ '')''
      else if op = ''attribute_exists'' then ''attribute_exists('' @ keyName @ '')''
      else keyName @ '' = '' @ valueName)"

text \<open>
  \<open>hashGenerator\<close> draws from \<open>Math.random\<close> until it has enough characters.
  \<open>random i\<close> is what the \<open>i\<close>-th evaluation of
  \<open>Math.random().toString(36).substring(2, 15)\<close> yields; the loop returns the hash and
  the number of the next draw. Nothing bounds the number of iterations: a draw may be
  empty.
\<close>

partial_function (option) hashGenerator_loop ::
  "(nat \<Rightarrow> string) \<Rightarrow> nat \<Rightarrow> nat \<Rightarrow> string \<Rightarrow> (string \<times> nat) option"
where
  "hashGenerator_loop random len i hash =
     (if length hash < len then hashGenerator_loop random len (Suc i) (hash @ random i)
      else Some (take len hash, i))"

declare hashGenerator_loop.simps [code]

definition hashGenerator :: "(nat \<Rightarrow> string) \<Rightarrow> nat \<Rightarrow> nat \<Rightarrow> (string \<times> nat) option" where
  "hashGenerator random i len = hashGenerator_loop random len i []"

subsection \<open>Request, accumulators and the compiled query\<close>

text \<open>
  The request types of \<open>types.ts\<close>, with \<open>unknown\<close> values where the code accepts
  more than the declared \<open>string\<close>: \<open>VUndefined\<close> is a property left out. Two fields
  are renamed because Isabelle reserves their names: \<open>fvalue\<close> is the filter's
  \<open>value\<close>, \<open>sort_direction\<close> is \<open>sort\<close>. \<open>query_state\<close> holds the four
  accumulators of \<open>getList\<close> and the number of draws from \<open>Math.random\<close> so far;
  \<open>query_input\<close> is the \<open>options\<close> object.
\<close>

record filter_info =
  field :: string
  fvalue :: val
  value2 :: val
  operator :: string

record pagination_info =
  page :: int
  perPage :: int

record params_info =
  pk :: val
  filters :: "filter_info list option"
  sort_direction :: "string option"
  pagination :: "pagination_info option"
  startKey :: val
  keyConditionLogicalOperator :: "string option"
  filterLogicalOperator :: "string option"

record query_state =
  reqKeyConditionExpression :: "string list"
  reqExpressionAttributeNames :: "(string \<times> string) list"
  reqExpressionAttributeValues :: "(string \<times> attribute_value) list"
  reqFilterExpression :: "string list"
  draws :: nat

record query_input =
  TableName :: string
  KeyConditionExpression :: string
  ExpressionAttributeNames :: "(string \<times> string) list"
  ExpressionAttributeValues :: "(string \<times> attribute_value) list"
  ScanIndexForward :: bool
  Limit :: "int option"
  IndexName :: "string option"
  ExclusiveStartKey :: "attribute_value option"
  FilterExpression :: "string option"

definition supplied :: "string option \<Rightarrow> bool" where
  \<comment> \<open>Truthiness of an optional string: \<open>undefined\<close> and the empty string are falsy.\<close>
  "supplied name = (case name of None \<Rightarrow> False | Some n \<Rightarrow> n \<noteq> [])"

fun typeof_object :: "val \<Rightarrow> bool" where
  \<comment> \<open>\<open>typeof v === 'object'\<close>\<close>
  "typeof_object VNull = True"
| "typeof_object (VArr r xs) = True"
| "typeof_object (VObj r kvs) = True"
| "typeof_object (VInherited k) = (k = ''__proto__'')"
| "typeof_object v = False"

definition pk_entry :: "val \<Rightarrow> error + (val \<times> val)" where
  \<comment> \<open>\<open>typeof pk === 'object' ? Object.entries(pk).flat() : ['pk', pk]\<close>, destructured into
      its first two elements; \<open>Object.entries(null)\<close> throws.\<close>
  "pk_entry p =
     (if typeof_object p then
        (if p = VNull then Inl TypeError
         else (case own_entries p of
                 [] \<Rightarrow> Inr (VUndefined, VUndefined)
               | (k, v) # rest \<Rightarrow> Inr (VStr k, v)))
      else Inr (VStr ''pk'', p))"

definition optional_value :: "val \<Rightarrow> error + attribute_value option" where
  \<comment> \<open>\<open>if (value2 !== undefined) ... toDynamoDBValue(value2)\<close>\<close>
  "optional_value v =
     (if v \<noteq> VUndefined
      then (case toDynamoDBValue v of Inl e \<Rightarrow> Inl e | Inr a \<Rightarrow> Inr (Some a))
      else Inr None)"

definition route ::
  "string option \<Rightarrow> filter_info \<Rightarrow> string \<Rightarrow> query_state \<Rightarrow> query_state" where
  "route indexName f fragment s =
     (if field f = ''sk''
      then s\<lparr>reqKeyConditionExpression := reqKeyConditionExpression s @ [fragment]\<rparr>
      else if supplied indexName \<and> field f = ''date''
      then s\<lparr>reqKeyConditionExpression := reqKeyConditionExpression s @ [fragment]\<rparr>
      else s\<lparr>reqFilterExpression := reqFilterExpression s @ [fragment]\<rparr>)"

definition filter_step ::
  "(nat \<Rightarrow> string) \<Rightarrow> string option \<Rightarrow> filter_info \<Rightarrow> query_state \<Rightarrow>
   (error + query_state) option" where
  \<comment> \<open>The body of \<open>for (const { field, value, value2, operator } of filters)\<close>.\<close>
  "filter_step random indexName f s =
     (let keyName = ''#'' @ field f;
          value2Name = '':'' @ field f @ ''2'';
          s1 = s\<lparr>reqExpressionAttributeNames :=
                    put (reqExpressionAttributeNames s) keyName (field f)\<rparr>
      in case (if hasOwnProperty (reqExpressionAttributeValues s1) ('':'' @ field f)
               then (case hashGenerator random (draws s1) 8 of
                       None \<Rightarrow> None
                     | Some (hash, n) \<Rightarrow> Some ('':'' @ field f @ hash, n))
               else Some ('':'' @ field f, draws s1)) of
           None \<Rightarrow> None
         | Some (valueName, n) \<Rightarrow>
             Some
               (case toDynamoDBValue (fvalue f) of
                  Inl e \<Rightarrow> Inl e
                | Inr v \<Rightarrow>
                    (case optional_value (value2 f) of
                       Inl e \<Rightarrow> Inl e
                     | Inr v2 \<Rightarrow>
                         Inr (route indexName f
                                (setOperator keyName valueName value2Name (operator f))
                                (s1\<lparr>reqExpressionAttributeValues :=
                                       (case v2 of
                                          None \<Rightarrow> put (reqExpressionAttributeValues s1) valueName v
                                        | Some w \<Rightarrow>
                                            put (put (reqExpressionAttributeValues s1) valueName v)
                                              value2Name w),
                                     draws := n\<rparr>)))))"

fun filters_loop ::
  "(nat \<Rightarrow> string) \<Rightarrow> string option \<Rightarrow> filter_info list \<Rightarrow> query_state \<Rightarrow>
   (error + query_state) option" where
  "filters_loop random indexName [] s = Some (Inr s)"
| "filters_loop random indexName (f # fs) s =
     (case filter_step random indexName f s of
        None \<Rightarrow> None
      | Some (Inl e) \<Rightarrow> Some (Inl e)
      | Some (Inr s') \<Rightarrow> filters_loop random indexName fs s')"

definition filters_of :: "params_info \<Rightarrow> filter_info list" where
  \<comment> \<open>The destructuring default \<open>filters = []\<close>.\<close>
  "filters_of params = (case filters params of None \<Rightarrow> [] | Some fs \<Rightarrow> fs)"

definition query_fragments ::
  "(nat \<Rightarrow> string) \<Rightarrow> params_info \<Rightarrow> string option \<Rightarrow> (error + query_state) option" where
  \<comment> \<open>\<open>getList\<close> up to the end of its loop: the four accumulators.\<close>
  "query_fragments random params indexName =
     (case pk_entry (pk params) of
        Inl e \<Rightarrow> Some (Inl e)
      | Inr (attrKey, attrValue) \<Rightarrow>
          (case attrKey of
             VStr k \<Rightarrow>
               (case toDynamoDBValue attrValue of
                  Inl e \<Rightarrow> Some (Inl e)
                | Inr v \<Rightarrow>
                    filters_loop random indexName (filters_of params)
                      \<lparr>reqKeyConditionExpression =
                         [(''#'' @ replaceSymbol k []) @ '' = '' @ ('':'' @ replaceSymbol k [])],
                       reqExpressionAttributeNames = [(''#'' @ replaceSymbol k [], k)],
                       reqExpressionAttributeValues = [('':'' @ replaceSymbol k [], v)],
                       reqFilterExpression = [],
                       draws = 0\<rparr>)
           | _ \<Rightarrow> Some (Inl TypeError)))"

definition logical_operator :: "string option \<Rightarrow> string" where
  \<comment> \<open>The destructuring default \<open>LogicalOperator.AND\<close>.\<close>
  "logical_operator given = (case given of None \<Rightarrow> ''AND'' | Some s \<Rightarrow> s)"

definition query_options ::
  "string \<Rightarrow> params_info \<Rightarrow> string option \<Rightarrow> query_state \<Rightarrow> error + query_input" where
  \<comment> \<open>The object literal \<open>options\<close>, its properties evaluated in their order.\<close>
  "query_options tableName params indexName s =
     (case convertLogicalOperator (logical_operator (keyConditionLogicalOperator params)) of
        Inl e \<Rightarrow> Inl e
      | Inr keySep \<Rightarrow>
          (case (if truthy (startKey params)
                 then (case toDynamoDBValue (startKey params) of
                         Inl e \<Rightarrow> Inl e | Inr a \<Rightarrow> Inr (Some a))
                 else Inr None) of
             Inl e \<Rightarrow> Inl e
           | Inr exclusiveStartKey \<Rightarrow>
               (case (if isIterableArray (reqFilterExpression s)
                      then (case convertLogicalOperator
                                   (logical_operator (filterLogicalOperator params)) of
                              Inl e \<Rightarrow> Inl e
                            | Inr filterSep \<Rightarrow>
                                Inr (Some (js_join filterSep (reqFilterExpression s))))
                      else Inr None) of
                  Inl e \<Rightarrow> Inl e
                | Inr filterExpression \<Rightarrow>
                    Inr \<lparr>TableName = tableName,
                         KeyConditionExpression = js_join keySep (reqKeyConditionExpression s),
                         ExpressionAttributeNames = reqExpressionAttributeNames s,
                         ExpressionAttributeValues = reqExpressionAttributeValues s,
                         ScanIndexForward = (sort_direction params \<noteq> Some ''DESC''),
                         Limit = map_option perPage (pagination params),
                         IndexName = (if supplied indexName then indexName else None),
                         ExclusiveStartKey = exclusiveStartKey,
                         FilterExpression = filterExpression\<rparr>)))"

definition getList ::
  "(nat \<Rightarrow> string) \<Rightarrow> string \<Rightarrow> params_info \<Rightarrow> string option \<Rightarrow> (error + query_input) option"
where
  \<comment> \<open>From the request to the options handed to \<open>dbService.query\<close>. \<open>None\<close>: the call
      does not return. \<open>random i\<close> is what the \<open>i\<close>-th evaluation of
      \<open>Math.random().toString(36).substring(2, 15)\<close> yields.\<close>
  "getList random tableName params indexName =
     (case query_fragments random params indexName of
        None \<Rightarrow> None
      | Some (Inl e) \<Rightarrow> Some (Inl e)
      | Some (Inr s) \<Rightarrow> Some (query_options tableName params indexName s))"

definition request :: "val \<Rightarrow> filter_info list \<Rightarrow> params_info" where
  \<comment> \<open>A request that gives a partition key and filters and leaves everything else out.\<close>
  "request p fs =
     \<lparr>pk = p, filters = Some fs, sort_direction = None, pagination = None, startKey = VUndefined,
      keyConditionLogicalOperator = None, filterLogicalOperator = None\<rparr>"

definition filter_fragment :: "filter_info \<times> string \<Rightarrow> string" where
  \<comment> \<open>The fragment of a filter whose value placeholder is \<open>:field\<close> followed by a
      suffix: empty, or the hash that told it apart.\<close>
  "filter_fragment fx =
     setOperator (''#'' @ field (fst fx)) ('':'' @ field (fst fx) @ snd fx)
       ('':'' @ field (fst fx) @ ''2'') (operator (fst fx))"

lemmas query_defs =
  getList_def query_fragments_def pk_entry_def filters_of_def request_def filter_step_def
  hasOwnProperty_def optional_value_def route_def supplied_def
  query_options_def logical_operator_def convertLogicalOperator_def toUpperCase_def
  isIterableArray_def setOperator_def toLowerCase_def replaceSymbol_def symbols_def Let_def

section \<open>Properties of the value codec\<close>

lemma sequence_map_Inr: "sequence (map Inr ys) = Inr ys"
  by (induction ys) simp_all

lemma sequence_Inr_D: "sequence rs = Inr ys \<Longrightarrow> rs = map Inr ys"
proof (induction rs arbitrary: ys)
  case Nil
  then show ?case by simp
next
  case (Cons r rs)
  show ?case
  proof (cases r)
    case (Inl e)
    with Cons.prems show ?thesis by simp
  next
    case (Inr a)
    with Cons.prems obtain zs where zs: "sequence rs = Inr zs" and ys: "ys = a # zs"
      by (auto split: sum.splits)
    from Cons.IH [OF zs] Inr ys show ?thesis by simp
  qed
qed

lemma sequence_Inr_iff:
  "(sequence rs = Inr ys) = (rs = map Inr ys)"
  using sequence_Inr_D sequence_map_Inr by blast

lemma sequence_Inl_iff:
  "(sequence rs = Inl e) = (\<exists>as bs. rs = map Inr as @ Inl e # bs)"
proof (induction rs)
  case Nil
  then show ?case by simp
next
  case (Cons r rs)
  show ?case
  proof (cases r)
    case (Inl e')
    show ?thesis
    proof
      assume "sequence (r # rs) = Inl e"
      with Inl have "r # rs = map Inr [] @ Inl e # rs" by simp
      then show "\<exists>as bs. r # rs = map Inr as @ Inl e # bs" by blast
    next
      assume "\<exists>as bs. r # rs = map Inr as @ Inl e # bs"
      then obtain as bs where eq: "r # rs = map Inr as @ Inl e # bs" by blast
      with Inl have "as = []" by (cases as) auto
      with eq Inl show "sequence (r # rs) = Inl e" by simp
    qed
  next
    case (Inr a)
    show ?thesis
    proof
      assume "sequence (r # rs) = Inl e"
      with Inr have "sequence rs = Inl e" by (simp split: sum.splits)
      with Cons obtain as bs where "rs = map Inr as @ Inl e # bs" by blast
      with Inr have "r # rs = map Inr (a # as) @ Inl e # bs" by simp
      then show "\<exists>as bs. r # rs = map Inr as @ Inl e # bs" by blast
    next
      assume "\<exists>as bs. r # rs = map Inr as @ Inl e # bs"
      then obtain as bs where eq: "r # rs = map Inr as @ Inl e # bs" by blast
      with Inr obtain as' where as: "as = a # as'" and rs: "rs = map Inr as' @ Inl e # bs"
        by (cases as) auto
      from rs Cons have "sequence rs = Inl e" by blast
      with Inr show "sequence (r # rs) = Inl e" by simp
    qed
  qed
qed

lemma toDynamoDBValue_error:
  "toDynamoDBValue v = Inl e \<Longrightarrow> e = UnsupportedValueType"
proof (induction v arbitrary: e rule: toDynamoDBValue.induct)
  case (3 r xs)
  from "3.prems" have "sequence (map toDynamoDBValue xs) = Inl e"
    by (simp split: sum.splits)
  then obtain as bs where "map toDynamoDBValue xs = map Inr as @ Inl e # bs"
    by (auto simp: sequence_Inl_iff)
  then have "Inl e \<in> set (map toDynamoDBValue xs)" by simp
  then obtain x where "x \<in> set xs" "toDynamoDBValue x = Inl e" by auto
  with "3.IH" show ?case by blast
qed simp_all

lemma toDynamoDBValue_supported:
  "supported v = (\<exists>a. toDynamoDBValue v = Inr a)"
proof (induction v rule: toDynamoDBValue.induct)
  case (3 r xs)
  show ?case
  proof
    assume "supported (VArr r xs)"
    then have "\<forall>x\<in>set xs. \<exists>a. toDynamoDBValue x = Inr a"
      using "3.IH" by (auto simp: list_all_iff)
    then have "\<exists>ys. map toDynamoDBValue xs = map Inr ys"
    proof (induction xs)
      case Nil
      then show ?case by simp
    next
      case (Cons x xs)
      then obtain a ys where "toDynamoDBValue x = Inr a" "map toDynamoDBValue xs = map Inr ys"
        by auto
      then have "map toDynamoDBValue (x # xs) = map Inr (a # ys)" by simp
      then show ?case by blast
    qed
    then obtain ys where "sequence (map toDynamoDBValue xs) = Inr ys"
      by (auto simp: sequence_Inr_iff)
    then show "\<exists>a. toDynamoDBValue (VArr r xs) = Inr a" by simp
  next
    assume "\<exists>a. toDynamoDBValue (VArr r xs) = Inr a"
    then obtain ys where "sequence (map toDynamoDBValue xs) = Inr ys"
      by (auto split: sum.splits)
    then have eq: "map toDynamoDBValue xs = map Inr ys"
      by (simp add: sequence_Inr_iff)
    have "\<forall>x\<in>set xs. \<exists>a. toDynamoDBValue x = Inr a"
    proof
      fix x assume "x \<in> set xs"
      then have "toDynamoDBValue x \<in> set (map Inr ys)" using eq [symmetric] by simp
      then show "\<exists>a. toDynamoDBValue x = Inr a" by auto
    qed
    then show "supported (VArr r xs)"
      using "3.IH" by (auto simp: list_all_iff)
  qed
qed simp_all

lemma toDynamoDBValue_encoded:
  "supported v \<Longrightarrow> toDynamoDBValue v = Inr (encoded v)"
proof (induction v rule: toDynamoDBValue.induct)
  case (3 r xs)
  then have "\<forall>x\<in>set xs. toDynamoDBValue x = Inr (encoded x)"
    by (simp add: list_all_iff)
  then have "map toDynamoDBValue xs = map Inr (map encoded xs)"
    by simp
  then have "sequence (map toDynamoDBValue xs) = Inr (map encoded xs)"
    by (simp only: sequence_map_Inr)
  then show ?case by simp
qed simp_all

text \<open>
  Claim C9. The codec returns a value on every string, number, boolean, \<open>null\<close>,
  \<open>undefined\<close> and array of supported values: a string and a boolean unchanged, a number
  as the string \<open>toString\<close> gives for it, \<open>null\<close> and \<open>undefined\<close> as null, an array
  as the array of its elements' encodings, so that the result on every supported value
  is the encoding that the specification describes. On every other input, and on no
  supported one, it fails with \<open>UnsupportedValueType\<close>.
\<close>

theorem toDynamoDBValue_total:
  "toDynamoDBValue (VStr s) = Inr (AStr s)
   \<and> toDynamoDBValue (VBool b) = Inr (ABool b)
   \<and> toDynamoDBValue (VNum n) = Inr (AStr (toString n))
   \<and> toDynamoDBValue VNull = Inr ANull
   \<and> toDynamoDBValue VUndefined = Inr ANull
   \<and> (supported (VArr r xs) \<longrightarrow>
        toDynamoDBValue (VArr r xs) = Inr (AList (map encoded xs))
        \<and> map toDynamoDBValue xs = map Inr (map encoded xs))
   \<and> (supported v \<longrightarrow> toDynamoDBValue v = Inr (encoded v))
   \<and> (\<not> supported v \<longrightarrow> toDynamoDBValue v = Inl UnsupportedValueType)"
proof -
  have arr: "supported (VArr r xs) \<longrightarrow>
        toDynamoDBValue (VArr r xs) = Inr (AList (map encoded xs))
        \<and> map toDynamoDBValue xs = map Inr (map encoded xs)"
  proof
    assume sup: "supported (VArr r xs)"
    then have "\<forall>x\<in>set xs. toDynamoDBValue x = Inr (encoded x)"
      by (simp add: list_all_iff toDynamoDBValue_encoded)
    then have elems: "map toDynamoDBValue xs = map Inr (map encoded xs)" by simp
    from toDynamoDBValue_encoded [OF sup]
    have "toDynamoDBValue (VArr r xs) = Inr (AList (map encoded xs))" by simp
    with elems
    show "toDynamoDBValue (VArr r xs) = Inr (AList (map encoded xs))
        \<and> map toDynamoDBValue xs = map Inr (map encoded xs)" by blast
  qed
  have yes: "supported v \<longrightarrow> toDynamoDBValue v = Inr (encoded v)"
    by (simp add: toDynamoDBValue_encoded)
  have no: "\<not> supported v \<longrightarrow> toDynamoDBValue v = Inl UnsupportedValueType"
  proof
    assume "\<not> supported v"
    then have "\<nexists>a. toDynamoDBValue v = Inr a" using toDynamoDBValue_supported by blast
    then obtain e where "toDynamoDBValue v = Inl e" by (cases "toDynamoDBValue v") auto
    with toDynamoDBValue_error show "toDynamoDBValue v = Inl UnsupportedValueType" by blast
  qed
  from arr yes no show ?thesis by simp
qed

theorem toDynamoDBValue_total_witness:
  "supported (VArr 1 [VStr ''a'', VNum (Number ''7''), VArr 2 [VBool True, VNull, VUndefined]])
   \<and> toDynamoDBValue (VArr 1 [VStr ''a'', VNum (Number ''7''), VArr 2 [VBool True, VNull, VUndefined]])
       = Inr (AList [AStr ''a'', AStr ''7'', AList [ABool True, ANull, ANull]])
   \<and> supported (VArr 3 [VNum (Number ''-1.5''), VNum (Number ''1e+21''), VNum (Number ''NaN'')])
   \<and> toDynamoDBValue (VArr 3 [VNum (Number ''-1.5''), VNum (Number ''1e+21''), VNum (Number ''NaN'')])
       = Inr (AList [AStr ''-1.5'', AStr ''1e+21'', AStr ''NaN''])
   \<and> \<not> supported (VArr 4 [VStr ''a'', VFun 5])
   \<and> toDynamoDBValue (VArr 4 [VStr ''a'', VFun 5]) = Inl UnsupportedValueType
   \<and> \<not> supported (VObj 6 [(''a'', VNum (Number ''1''))])
   \<and> toDynamoDBValue (VObj 6 [(''a'', VNum (Number ''1''))]) = Inl UnsupportedValueType
   \<and> \<not> supported (VFun 7)
   \<and> toDynamoDBValue (VFun 7) = Inl UnsupportedValueType"
  using toDynamoDBValue_total [of "''a''" True "Number ''7''" 1
          "[VStr ''a'', VNum (Number ''7''), VArr 2 [VBool True, VNull, VUndefined]]"
          "VArr 3 [VNum (Number ''-1.5''), VNum (Number ''1e+21''), VNum (Number ''NaN'')]"]
        toDynamoDBValue_total [of "''a''" True "Number ''7''" 4 "[VStr ''a'', VFun 5]"
          "VArr 4 [VStr ''a'', VFun 5]"]
        toDynamoDBValue_total [of "''a''" True "Number ''7''" 4 "[]" "VObj 6 [(''a'', VNum (Number ''1''))]"]
        toDynamoDBValue_total [of "''a''" True "Number ''7''" 4 "[]" "VFun 7"]
  by simp

section \<open>Properties of the update-merge engine\<close>

subsection \<open>Entry lists, \<open>Set\<close> and \<open>filter\<close>\<close>




lemma same_value_zero_refl: "same_value_zero a a"
  by (cases a) (simp_all add: same_value_zero_def)








lemma isArray_elements: "isArray v \<Longrightarrow> v = VArr (the (ref_of v)) (elements v)"
  by (cases v) simp_all













subsection \<open>What the loop leaves alone\<close>









subsection \<open>The array merge\<close>





text \<open>
  Claim C1, as the code computes it. For the previous item
  \<open>{ pk: "a", sk: "b", tags: ["x", "y"] }\<close> and the update document
  \<open>{ tags: { add: ["y", "z"] } }\<close> the merged item has \<open>tags\<close> equal to
  \<open>["y", "z", "x"]\<close>, in that order: the add elements first, then the previous ones not
  yet seen.
\<close>

theorem merge_example_order:
  "merged_attr ''tags''
     (updateItem lm lu ts fresh
        (Some [(''pk'', VStr ''a''), (''sk'', VStr ''b''),
               (''tags'', VArr 1 [VStr ''x'', VStr ''y''])])
        [(''tags'', VObj 2 [(''add'', VArr 3 [VStr ''y'', VStr ''z''])])])
   = Inr (Some (VArr fresh [VStr ''y'', VStr ''z'', VStr ''x'']))"
  by (simp add: engine_defs)

text \<open>
  Claim C1 as stated (the merged \<open>tags\<close> are \<open>["z", "x", "y"]\<close>) fails on that very
  input.
\<close>

theorem merge_example_order_counterexample:
  "merged_elements ''tags''
     (updateItem merge_flat unset_flat ''2024-01-01T00:00:00.000Z'' 100
        (Some [(''pk'', VStr ''a''), (''sk'', VStr ''b''),
               (''tags'', VArr 1 [VStr ''x'', VStr ''y''])])
        [(''tags'', VObj 2 [(''add'', VArr 3 [VStr ''y'', VStr ''z''])])])
   \<noteq> Inr [VStr ''z'', VStr ''x'', VStr ''y'']"
  by (simp add: engine_defs)





text \<open>
  Claim C3 at the input \<open>{ pk: "a", sk: "b", tags: ["x"] }\<close>,
  \<open>{ tags: { remove: ["x"] } }\<close>: the array merge yields the empty array, and the merged
  item still has \<open>tags\<close>, with the previous value \<open>["x"]\<close>.
\<close>

theorem empty_merge_keeps_previous:
  "merged_attr ''tags''
     (updateItem lm lu ts fresh
        (Some [(''pk'', VStr ''a''), (''sk'', VStr ''b''), (''tags'', VArr 1 [VStr ''x''])])
        [(''tags'', VObj 2 [(''remove'', VArr 3 [VStr ''x''])])])
   = Inr (Some (VArr 1 [VStr ''x'']))"
  by (simp add: engine_defs)

subsection \<open>Effects on the inputs\<close>




section \<open>Properties of the list-query compiler\<close>

subsection \<open>The hash and termination\<close>

lemma hashGenerator_first:
  "len \<le> length (random i) \<Longrightarrow> 0 < len \<Longrightarrow>
   hashGenerator random i len = Some (take len (random i), Suc i)"
  unfolding hashGenerator_def
  by (subst hashGenerator_loop.simps, simp, subst hashGenerator_loop.simps, simp)

lemma hashGenerator_example: "hashGenerator (\<lambda>i. ''4fzyo82mvyq'') 0 8 = Some (''4fzyo82m'', 1)"
  by (simp add: hashGenerator_first)

lemma hashGenerator_loop_returns:
  "\<forall>j. random j \<noteq> [] \<Longrightarrow>
   \<exists>h n. hashGenerator_loop random len i hash = Some (h, n) \<and> length h = len"
proof (induction "len - length hash" arbitrary: i hash rule: less_induct)
  case less
  show ?case
  proof (cases "length hash < len")
    case True
    from less.prems have "random i \<noteq> []" by simp
    with True have "len - length (hash @ random i) < len - length hash"
      by (cases "random i") auto
    from less.hyps [OF this less.prems, of "Suc i"] True show ?thesis
      by (subst hashGenerator_loop.simps) simp
  next
    case False
    then show ?thesis by (subst hashGenerator_loop.simps) simp
  qed
qed

lemma hashGenerator_returns:
  "\<forall>j. random j \<noteq> [] \<Longrightarrow> \<exists>h n. hashGenerator random i len = Some (h, n) \<and> length h = len"
  unfolding hashGenerator_def by (rule hashGenerator_loop_returns)

lemma filter_step_returns:
  "\<forall>j. random j \<noteq> [] \<Longrightarrow> filter_step random indexName f s \<noteq> None"
  using hashGenerator_returns [of random "draws s" 8]
  by (auto simp: filter_step_def Let_def split: option.splits)

lemma filters_loop_returns:
  "\<forall>j. random j \<noteq> [] \<Longrightarrow> filters_loop random indexName fs s \<noteq> None"
proof (induction fs arbitrary: s)
  case Nil
  then show ?case by simp
next
  case (Cons f fs)
  from filter_step_returns [OF Cons.prems, of indexName f s]
  obtain r where r: "filter_step random indexName f s = Some r" by blast
  show ?case
  proof (cases r)
    case (Inl e)
    with r show ?thesis by simp
  next
    case (Inr s1)
    with r Cons.IH [OF Cons.prems, of s1] show ?thesis by simp
  qed
qed

lemma getList_returns:
  "\<forall>j. random j \<noteq> [] \<Longrightarrow> getList random tableName params indexName \<noteq> None"
proof -
  assume draws: "\<forall>j. random j \<noteq> []"
  have "query_fragments random params indexName \<noteq> None"
    using filters_loop_returns [OF draws]
    by (auto simp: query_fragments_def split: sum.splits val.splits prod.splits)
  then show ?thesis
    by (auto simp: getList_def split: option.splits sum.splits)
qed

subsection \<open>Routing of the fragments\<close>

lemma filter_step_routes:
  assumes "filter_step random indexName f s = Some (Inr s')"
  shows "\<exists>suffix.
     (if field f = ''sk'' \<or> (field f = ''date'' \<and> supplied indexName)
      then reqKeyConditionExpression s' = reqKeyConditionExpression s @ [filter_fragment (f, suffix)]
           \<and> reqFilterExpression s' = reqFilterExpression s
      else reqFilterExpression s' = reqFilterExpression s @ [filter_fragment (f, suffix)]
           \<and> reqKeyConditionExpression s' = reqKeyConditionExpression s)"
proof (cases "hasOwnProperty (reqExpressionAttributeValues s) ('':'' @ field f)")
  case True
  with assms obtain hash n where "hashGenerator random (draws s) 8 = Some (hash, n)"
    by (auto simp: filter_step_def Let_def split: option.splits)
  with assms True have
    "(if field f = ''sk'' \<or> (field f = ''date'' \<and> supplied indexName)
      then reqKeyConditionExpression s' = reqKeyConditionExpression s @ [filter_fragment (f, hash)]
           \<and> reqFilterExpression s' = reqFilterExpression s
      else reqFilterExpression s' = reqFilterExpression s @ [filter_fragment (f, hash)]
           \<and> reqKeyConditionExpression s' = reqKeyConditionExpression s)"
    by (auto simp: filter_step_def Let_def route_def filter_fragment_def
          split: sum.splits option.splits)
  then show ?thesis by blast
next
  case False
  with assms have
    "(if field f = ''sk'' \<or> (field f = ''date'' \<and> supplied indexName)
      then reqKeyConditionExpression s' = reqKeyConditionExpression s @ [filter_fragment (f, [])]
           \<and> reqFilterExpression s' = reqFilterExpression s
      else reqFilterExpression s' = reqFilterExpression s @ [filter_fragment (f, [])]
           \<and> reqKeyConditionExpression s' = reqKeyConditionExpression s)"
    by (auto simp: filter_step_def Let_def route_def filter_fragment_def
          split: sum.splits option.splits)
  then show ?thesis by blast
qed

lemma filters_loop_routes:
  "filters_loop random indexName fs s = Some (Inr s') \<Longrightarrow>
   \<exists>suffixes. length suffixes = length fs
     \<and> reqKeyConditionExpression s' =
         reqKeyConditionExpression s @
           map filter_fragment
             (filter (\<lambda>fx. field (fst fx) = ''sk'' \<or> (field (fst fx) = ''date'' \<and> supplied indexName))
                (zip fs suffixes))
     \<and> reqFilterExpression s' =
         reqFilterExpression s @
           map filter_fragment
             (filter (\<lambda>fx. \<not> (field (fst fx) = ''sk'' \<or> (field (fst fx) = ''date'' \<and> supplied indexName)))
                (zip fs suffixes))"
proof (induction fs arbitrary: s)
  case Nil
  then show ?case by simp
next
  case (Cons f fs)
  from Cons.prems obtain s1 where s1: "filter_step random indexName f s = Some (Inr s1)"
    and rest: "filters_loop random indexName fs s1 = Some (Inr s')"
    by (auto split: option.splits sum.splits)
  from filter_step_routes [OF s1] obtain suffix where step:
    "(if field f = ''sk'' \<or> (field f = ''date'' \<and> supplied indexName)
      then reqKeyConditionExpression s1 = reqKeyConditionExpression s @ [filter_fragment (f, suffix)]
           \<and> reqFilterExpression s1 = reqFilterExpression s
      else reqFilterExpression s1 = reqFilterExpression s @ [filter_fragment (f, suffix)]
           \<and> reqKeyConditionExpression s1 = reqKeyConditionExpression s)"
    by blast
  from Cons.IH [OF rest] obtain suffixes where len: "length suffixes = length fs"
    and k: "reqKeyConditionExpression s' =
         reqKeyConditionExpression s1 @
           map filter_fragment
             (filter (\<lambda>fx. field (fst fx) = ''sk'' \<or> (field (fst fx) = ''date'' \<and> supplied indexName))
                (zip fs suffixes))"
    and fl: "reqFilterExpression s' =
         reqFilterExpression s1 @
           map filter_fragment
             (filter (\<lambda>fx. \<not> (field (fst fx) = ''sk'' \<or> (field (fst fx) = ''date'' \<and> supplied indexName)))
                (zip fs suffixes))"
    by blast
  let ?sx = "suffix # suffixes"
  from len have "length ?sx = length (f # fs)" by simp
  moreover from step k have "reqKeyConditionExpression s' =
         reqKeyConditionExpression s @
           map filter_fragment
             (filter (\<lambda>fx. field (fst fx) = ''sk'' \<or> (field (fst fx) = ''date'' \<and> supplied indexName))
                (zip (f # fs) ?sx))"
    by (simp split: if_splits)
  moreover from step fl have "reqFilterExpression s' =
         reqFilterExpression s @
           map filter_fragment
             (filter (\<lambda>fx. \<not> (field (fst fx) = ''sk'' \<or> (field (fst fx) = ''date'' \<and> supplied indexName)))
                (zip (f # fs) ?sx))"
    by (simp split: if_splits)
  ultimately show ?case by blast
qed

lemma query_fragments_routes:
  assumes "query_fragments random params indexName = Some (Inr s)"
  shows "\<exists>pkFragment suffixes. length suffixes = length (filters_of params)
     \<and> reqKeyConditionExpression s =
         pkFragment #
           map filter_fragment
             (filter (\<lambda>fx. field (fst fx) = ''sk'' \<or> (field (fst fx) = ''date'' \<and> supplied indexName))
                (zip (filters_of params) suffixes))
     \<and> reqFilterExpression s =
           map filter_fragment
             (filter (\<lambda>fx. \<not> (field (fst fx) = ''sk'' \<or> (field (fst fx) = ''date'' \<and> supplied indexName)))
                (zip (filters_of params) suffixes))"
proof -
  from assms obtain s0 where loop: "filters_loop random indexName (filters_of params) s0 = Some (Inr s)"
    and k0: "length (reqKeyConditionExpression s0) = 1" and f0: "reqFilterExpression s0 = []"
    by (auto simp: query_fragments_def split: sum.splits val.splits prod.splits)
  from k0 obtain pkFragment where "reqKeyConditionExpression s0 = [pkFragment]"
    by (cases "reqKeyConditionExpression s0") auto
  with filters_loop_routes [OF loop] f0 show ?thesis by auto
qed

lemma query_options_join:
  assumes "query_options tableName params indexName s = Inr q"
  shows "KeyConditionExpression q =
           js_join (toUpperCase (logical_operator (keyConditionLogicalOperator params)))
             (reqKeyConditionExpression s)
     \<and> (toUpperCase (logical_operator (keyConditionLogicalOperator params)) = ''AND''
          \<or> toUpperCase (logical_operator (keyConditionLogicalOperator params)) = ''OR'')
     \<and> FilterExpression q =
           (if reqFilterExpression s = [] then None
            else Some (js_join (toUpperCase (logical_operator (filterLogicalOperator params)))
                         (reqFilterExpression s)))
     \<and> (reqFilterExpression s \<noteq> [] \<longrightarrow>
           toUpperCase (logical_operator (filterLogicalOperator params)) = ''AND''
           \<or> toUpperCase (logical_operator (filterLogicalOperator params)) = ''OR'')"
  using assms
  by (auto simp: query_options_def convertLogicalOperator_def isIterableArray_def Let_def
        split: sum.splits if_splits)

text \<open>
  Claim C7. In the query that \<open>getList\<close> compiles, the key-condition expression is the
  join of the partition-key fragment followed, in the order of the filter list, by the
  fragments of exactly the filters whose field is \<open>sk\<close>, or is \<open>date\<close> while an index
  name is supplied; the filter expression is the join of the fragments of all the other
  filters, in order, and is absent when there is none. An index name is supplied when it
  is given and not the empty string (the test is JavaScript truthiness). Each filter has
  one fragment: \<open>setOperator\<close> on its placeholders, the value placeholder being
  \<open>:field\<close> with an empty suffix or with the hash.
\<close>

theorem getList_routing:
  assumes "getList random tableName params indexName = Some (Inr q)"
  shows "(\<exists>pkFragment suffixes.
       length suffixes = length (filters_of params)
       \<and> KeyConditionExpression q =
           js_join (toUpperCase (logical_operator (keyConditionLogicalOperator params)))
             (pkFragment #
                map filter_fragment (filter (\<lambda>fx. field (fst fx) = ''sk'' \<or> (field (fst fx) = ''date'' \<and> supplied indexName)) (zip (filters_of params) suffixes)))
       \<and> FilterExpression q =
           (if filter (\<lambda>fx. \<not> (field (fst fx) = ''sk'' \<or> (field (fst fx) = ''date'' \<and> supplied indexName))) (zip (filters_of params) suffixes) = []
            then None
            else Some (js_join (toUpperCase (logical_operator (filterLogicalOperator params)))
                         (map filter_fragment
                            (filter (\<lambda>fx. \<not> (field (fst fx) = ''sk'' \<or> (field (fst fx) = ''date'' \<and> supplied indexName))) (zip (filters_of params) suffixes))))))"
proof -
  from assms obtain s where frags: "query_fragments random params indexName = Some (Inr s)"
    and opts: "query_options tableName params indexName s = Inr q"
    by (auto simp: getList_def split: option.splits sum.splits)
  from query_fragments_routes [OF frags] obtain pkFragment suffixes where
    len: "length suffixes = length (filters_of params)"
    and key: "reqKeyConditionExpression s =
         pkFragment #
           map filter_fragment
             (filter (\<lambda>fx. field (fst fx) = ''sk'' \<or> (field (fst fx) = ''date'' \<and> supplied indexName))
                (zip (filters_of params) suffixes))"
    and flt: "reqFilterExpression s =
           map filter_fragment
             (filter (\<lambda>fx. \<not> (field (fst fx) = ''sk'' \<or> (field (fst fx) = ''date'' \<and> supplied indexName)))
                (zip (filters_of params) suffixes))"
    by blast
  from query_options_join [OF opts] key flt
  have "KeyConditionExpression q =
           js_join (toUpperCase (logical_operator (keyConditionLogicalOperator params)))
             (pkFragment #
                map filter_fragment (filter (\<lambda>fx. field (fst fx) = ''sk'' \<or> (field (fst fx) = ''date'' \<and> supplied indexName)) (zip (filters_of params) suffixes)))"
    and "FilterExpression q =
           (if filter (\<lambda>fx. \<not> (field (fst fx) = ''sk'' \<or> (field (fst fx) = ''date'' \<and> supplied indexName))) (zip (filters_of params) suffixes) = []
            then None
            else Some (js_join (toUpperCase (logical_operator (filterLogicalOperator params)))
                         (map filter_fragment
                            (filter (\<lambda>fx. \<not> (field (fst fx) = ''sk'' \<or> (field (fst fx) = ''date'' \<and> supplied indexName))) (zip (filters_of params) suffixes)))))"
    by simp_all
  with len show ?thesis by blast
qed

theorem getList_routing_witness:
  "getList (\<lambda>i. ''4fzyo82mvyq'') ''orders''
     (request (VStr ''user#1'')
        [\<lparr>field = ''status'', fvalue = VStr ''open'', value2 = VUndefined, operator = ''neq''\<rparr>,
         \<lparr>field = ''date'', fvalue = VStr ''2024'', value2 = VUndefined, operator = ''begins_with''\<rparr>,
         \<lparr>field = ''sk'', fvalue = VStr ''order#'', value2 = VUndefined, operator = ''begins_with''\<rparr>])
     (Some ''byDate'')
   = Some (Inr \<lparr>TableName = ''orders'',
      KeyConditionExpression =
        ''#pk = :pk'' @ ''AND'' @ ''begins_with(#date, :date)'' @ ''AND'' @ ''begins_with(#sk, :sk)'',
      ExpressionAttributeNames =
        [(''#pk'', ''pk''), (''#status'', ''status''), (''#date'', ''date''), (''#sk'', ''sk'')],
      ExpressionAttributeValues =
        [('':pk'', AStr ''user#1''), ('':status'', AStr ''open''),
         ('':date'', AStr ''2024''), ('':sk'', AStr ''order#'')],
      ScanIndexForward = True, Limit = None, IndexName = Some ''byDate'',
      ExclusiveStartKey = None,
      FilterExpression = Some ''#status <> :status''\<rparr>)
   \<and> (\<exists>pkFragment suffixes.
       length suffixes = length (filters_of (request (VStr ''user#1'')
        [\<lparr>field = ''status'', fvalue = VStr ''open'', value2 = VUndefined, operator = ''neq''\<rparr>,
         \<lparr>field = ''date'', fvalue = VStr ''2024'', value2 = VUndefined, operator = ''begins_with''\<rparr>,
         \<lparr>field = ''sk'', fvalue = VStr ''order#'', value2 = VUndefined, operator = ''begins_with''\<rparr>]))
       \<and> KeyConditionExpression \<lparr>TableName = ''orders'',
      KeyConditionExpression =
        ''#pk = :pk'' @ ''AND'' @ ''begins_with(#date, :date)'' @ ''AND'' @ ''begins_with(#sk, :sk)'',
      ExpressionAttributeNames =
        [(''#pk'', ''pk''), (''#status'', ''status''), (''#date'', ''date''), (''#sk'', ''sk'')],
      ExpressionAttributeValues =
        [('':pk'', AStr ''user#1''), ('':status'', AStr ''open''),
         ('':date'', AStr ''2024''), ('':sk'', AStr ''order#'')],
      ScanIndexForward = True, Limit = None, IndexName = Some ''byDate'',
      ExclusiveStartKey = None,
      FilterExpression = Some ''#status <> :status''\<rparr> =
           js_join (toUpperCase (logical_operator (keyConditionLogicalOperator (request (VStr ''user#1'')
        [\<lparr>field = ''status'', fvalue = VStr ''open'', value2 = VUndefined, operator = ''neq''\<rparr>,
         \<lparr>field = ''date'', fvalue = VStr ''2024'', value2 = VUndefined, operator = ''begins_with''\<rparr>,
         \<lparr>field = ''sk'', fvalue = VStr ''order#'', value2 = VUndefined, operator = ''begins_with''\<rparr>]))))
             (pkFragment #
                map filter_fragment (filter (\<lambda>fx. field (fst fx) = ''sk'' \<or> (field (fst fx) = ''date'' \<and> supplied (Some ''byDate''))) (zip (filters_of (request (VStr ''user#1'')
        [\<lparr>field = ''status'', fvalue = VStr ''open'', value2 = VUndefined, operator = ''neq''\<rparr>,
         \<lparr>field = ''date'', fvalue = VStr ''2024'', value2 = VUndefined, operator = ''begins_with''\<rparr>,
         \<lparr>field = ''sk'', fvalue = VStr ''order#'', value2 = VUndefined, operator = ''begins_with''\<rparr>])) suffixes)))
       \<and> FilterExpression \<lparr>TableName = ''orders'',
      KeyConditionExpression =
        ''#pk = :pk'' @ ''AND'' @ ''begins_with(#date, :date)'' @ ''AND'' @ ''begins_with(#sk, :sk)'',
      ExpressionAttributeNames =
        [(''#pk'', ''pk''), (''#status'', ''status''), (''#date'', ''date''), (''#sk'', ''sk'')],
      ExpressionAttributeValues =
        [('':pk'', AStr ''user#1''), ('':status'', AStr ''open''),
         ('':date'', AStr ''2024''), ('':sk'', AStr ''order#'')],
      ScanIndexForward = True, Limit = None, IndexName = Some ''byDate'',
      ExclusiveStartKey = None,
      FilterExpression = Some ''#status <> :status''\<rparr> =
           (if filter (\<lambda>fx. \<not> (field (fst fx) = ''sk'' \<or> (field (fst fx) = ''date'' \<and> supplied (Some ''byDate'')))) (zip (filters_of (request (VStr ''user#1'')
        [\<lparr>field = ''status'', fvalue = VStr ''open'', value2 = VUndefined, operator = ''neq''\<rparr>,
         \<lparr>field = ''date'', fvalue = VStr ''2024'', value2 = VUndefined, operator = ''begins_with''\<rparr>,
         \<lparr>field = ''sk'', fvalue = VStr ''order#'', value2 = VUndefined, operator = ''begins_with''\<rparr>])) suffixes) = []
            then None
            else Some (js_join (toUpperCase (logical_operator (filterLogicalOperator (request (VStr ''user#1'')
        [\<lparr>field = ''status'', fvalue = VStr ''open'', value2 = VUndefined, operator = ''neq''\<rparr>,
         \<lparr>field = ''date'', fvalue = VStr ''2024'', value2 = VUndefined, operator = ''begins_with''\<rparr>,
         \<lparr>field = ''sk'', fvalue = VStr ''order#'', value2 = VUndefined, operator = ''begins_with''\<rparr>]))))
                         (map filter_fragment
                            (filter (\<lambda>fx. \<not> (field (fst fx) = ''sk'' \<or> (field (fst fx) = ''date'' \<and> supplied (Some ''byDate'')))) (zip (filters_of (request (VStr ''user#1'')
        [\<lparr>field = ''status'', fvalue = VStr ''open'', value2 = VUndefined, operator = ''neq''\<rparr>,
         \<lparr>field = ''date'', fvalue = VStr ''2024'', value2 = VUndefined, operator = ''begins_with''\<rparr>,
         \<lparr>field = ''sk'', fvalue = VStr ''order#'', value2 = VUndefined, operator = ''begins_with''\<rparr>])) suffixes))))))"
proof -
  have run: "getList (\<lambda>i. ''4fzyo82mvyq'') ''orders''
     (request (VStr ''user#1'')
        [\<lparr>field = ''status'', fvalue = VStr ''open'', value2 = VUndefined, operator = ''neq''\<rparr>,
         \<lparr>field = ''date'', fvalue = VStr ''2024'', value2 = VUndefined, operator = ''begins_with''\<rparr>,
         \<lparr>field = ''sk'', fvalue = VStr ''order#'', value2 = VUndefined, operator = ''begins_with''\<rparr>])
     (Some ''byDate'')
   = Some (Inr \<lparr>TableName = ''orders'',
      KeyConditionExpression =
        ''#pk = :pk'' @ ''AND'' @ ''begins_with(#date, :date)'' @ ''AND'' @ ''begins_with(#sk, :sk)'',
      ExpressionAttributeNames =
        [(''#pk'', ''pk''), (''#status'', ''status''), (''#date'', ''date''), (''#sk'', ''sk'')],
      ExpressionAttributeValues =
        [('':pk'', AStr ''user#1''), ('':status'', AStr ''open''),
         ('':date'', AStr ''2024''), ('':sk'', AStr ''order#'')],
      ScanIndexForward = True, Limit = None, IndexName = Some ''byDate'',
      ExclusiveStartKey = None,
      FilterExpression = Some ''#status <> :status''\<rparr>)"
    by (simp add: query_defs)
  from getList_routing [OF run] run show ?thesis by (rule conjI [rotated])
qed

subsection \<open>The compiled query\<close>

text \<open>
  Claim C8. With the scalar partition key \<open>"user#1"\<close> and no filters (a
  key-condition join operator that is \<open>AND\<close> or \<open>OR\<close> in any case, or left out; a
  start key that is left out or encodable) \<open>getList\<close> returns a query whose
  key-condition expression is \<open>#pk = :pk\<close>, whose attribute-value map has the one entry
  \<open>:pk\<close> with value \<open>"user#1"\<close>, and that has no filter expression.
\<close>

theorem getList_partition_key_only:
  assumes pk: "pk params = VStr ''user#1''"
    and none: "filters_of params = []"
    and op: "toUpperCase (logical_operator (keyConditionLogicalOperator params)) = ''AND''
             \<or> toUpperCase (logical_operator (keyConditionLogicalOperator params)) = ''OR''"
    and start: "\<not> truthy (startKey params) \<or> supported (startKey params)"
  shows "\<exists>q. getList random tableName params indexName = Some (Inr q)
           \<and> KeyConditionExpression q = ''#pk = :pk''
           \<and> ExpressionAttributeNames q = [(''#pk'', ''pk'')]
           \<and> ExpressionAttributeValues q = [('':pk'', AStr ''user#1'')]
           \<and> FilterExpression q = None"
proof -
  have frag: "query_fragments random params indexName =
     Some (Inr \<lparr>reqKeyConditionExpression = [''#pk = :pk''],
                reqExpressionAttributeNames = [(''#pk'', ''pk'')],
                reqExpressionAttributeValues = [('':pk'', AStr ''user#1'')],
                reqFilterExpression = [],
                draws = 0\<rparr>)"
    using pk none by (simp add: query_fragments_def pk_entry_def replaceSymbol_def symbols_def)
  from op have sep: "\<exists>sep. convertLogicalOperator
       (logical_operator (keyConditionLogicalOperator params)) = Inr sep"
    by (auto simp: convertLogicalOperator_def Let_def)
  from start have "\<exists>k. (if truthy (startKey params)
                 then (case toDynamoDBValue (startKey params) of
                         Inl e \<Rightarrow> Inl e | Inr a \<Rightarrow> Inr (Some a))
                 else Inr None) = Inr k"
    using toDynamoDBValue_supported [of "startKey params"] by auto
  with sep frag show ?thesis
    by (auto simp: getList_def query_options_def isIterableArray_def)
qed

theorem getList_partition_key_only_witness:
  "pk (request (VStr ''user#1'') []) = VStr ''user#1''
   \<and> filters_of (request (VStr ''user#1'') []) = []
   \<and> toUpperCase (logical_operator (keyConditionLogicalOperator (request (VStr ''user#1'') []))) = ''AND''
   \<and> \<not> truthy (startKey (request (VStr ''user#1'') []))
   \<and> (\<exists>q. getList (\<lambda>i. ''4fzyo82mvyq'') ''tbl'' (request (VStr ''user#1'') []) None = Some (Inr q)
           \<and> KeyConditionExpression q = ''#pk = :pk''
           \<and> ExpressionAttributeNames q = [(''#pk'', ''pk'')]
           \<and> ExpressionAttributeValues q = [('':pk'', AStr ''user#1'')]
           \<and> FilterExpression q = None)"
  using getList_partition_key_only [of "request (VStr ''user#1'') []" "\<lambda>i. ''4fzyo82mvyq''" "''tbl''" None]
  by (simp add: request_def filters_of_def logical_operator_def toUpperCase_def)

text \<open>
  Claim C10. The key-condition expression is the key-condition fragments joined by the
  upper-cased join operator, which is \<open>AND\<close> or \<open>OR\<close>, and so is the filter
  expression when there is a filter fragment; the join puts the operator between two
  fragments and nothing else, no space. A partition key with one equality filter on
  \<open>sk\<close> compiles to the key condition \<open>#pk = :pkAND#sk = :sk\<close>.
\<close>

theorem getList_join_bare:
  "(query_fragments random params indexName = Some (Inr s)
      \<and> getList random tableName params indexName = Some (Inr q) \<longrightarrow>
    (toUpperCase (logical_operator (keyConditionLogicalOperator params)) = ''AND''
       \<or> toUpperCase (logical_operator (keyConditionLogicalOperator params)) = ''OR'')
    \<and> KeyConditionExpression q =
        js_join (toUpperCase (logical_operator (keyConditionLogicalOperator params)))
          (reqKeyConditionExpression s)
    \<and> (reqFilterExpression s \<noteq> [] \<longrightarrow>
         (toUpperCase (logical_operator (filterLogicalOperator params)) = ''AND''
            \<or> toUpperCase (logical_operator (filterLogicalOperator params)) = ''OR'')
         \<and> FilterExpression q =
             Some (js_join (toUpperCase (logical_operator (filterLogicalOperator params)))
                     (reqFilterExpression s))))
   \<and> js_join sep [a, b] = a @ sep @ b
   \<and> js_join sep (a # b # c # rest) = a @ sep @ b @ sep @ js_join sep (c # rest)
   \<and> (\<exists>q. getList random tableName
            (request (VStr p)
               [\<lparr>field = ''sk'', fvalue = VStr v, value2 = VUndefined, operator = ''eq''\<rparr>])
            indexName = Some (Inr q)
          \<and> KeyConditionExpression q = ''#pk = :pkAND#sk = :sk'')"
proof -
  have general: "query_fragments random params indexName = Some (Inr s)
      \<and> getList random tableName params indexName = Some (Inr q) \<longrightarrow>
    (toUpperCase (logical_operator (keyConditionLogicalOperator params)) = ''AND''
       \<or> toUpperCase (logical_operator (keyConditionLogicalOperator params)) = ''OR'')
    \<and> KeyConditionExpression q =
        js_join (toUpperCase (logical_operator (keyConditionLogicalOperator params)))
          (reqKeyConditionExpression s)
    \<and> (reqFilterExpression s \<noteq> [] \<longrightarrow>
         (toUpperCase (logical_operator (filterLogicalOperator params)) = ''AND''
            \<or> toUpperCase (logical_operator (filterLogicalOperator params)) = ''OR'')
         \<and> FilterExpression q =
             Some (js_join (toUpperCase (logical_operator (filterLogicalOperator params)))
                     (reqFilterExpression s)))"
  proof
    assume a: "query_fragments random params indexName = Some (Inr s)
      \<and> getList random tableName params indexName = Some (Inr q)"
    then have opts: "query_options tableName params indexName s = Inr q"
      by (auto simp: getList_def)
    then show "(toUpperCase (logical_operator (keyConditionLogicalOperator params)) = ''AND''
       \<or> toUpperCase (logical_operator (keyConditionLogicalOperator params)) = ''OR'')
    \<and> KeyConditionExpression q =
        js_join (toUpperCase (logical_operator (keyConditionLogicalOperator params)))
          (reqKeyConditionExpression s)
    \<and> (reqFilterExpression s \<noteq> [] \<longrightarrow>
         (toUpperCase (logical_operator (filterLogicalOperator params)) = ''AND''
            \<or> toUpperCase (logical_operator (filterLogicalOperator params)) = ''OR'')
         \<and> FilterExpression q =
             Some (js_join (toUpperCase (logical_operator (filterLogicalOperator params)))
                     (reqFilterExpression s)))"
      by (auto simp: query_options_def convertLogicalOperator_def isIterableArray_def Let_def
            split: sum.splits if_splits)
  qed
  have example: "\<exists>q. getList random tableName
            (request (VStr p)
               [\<lparr>field = ''sk'', fvalue = VStr v, value2 = VUndefined, operator = ''eq''\<rparr>])
            indexName = Some (Inr q)
          \<and> KeyConditionExpression q = ''#pk = :pkAND#sk = :sk''"
    by (simp add: query_defs)
  from general example show ?thesis by simp
qed

theorem getList_join_bare_witness:
  "query_fragments (\<lambda>i. ''4fzyo82mvyq'')
     (request (VStr ''p'')
        [\<lparr>field = ''sk'', fvalue = VStr ''v'', value2 = VUndefined, operator = ''eq''\<rparr>,
         \<lparr>field = ''a'', fvalue = VStr ''1'', value2 = VUndefined, operator = ''neq''\<rparr>,
         \<lparr>field = ''b'', fvalue = VStr ''2'', value2 = VUndefined, operator = ''contains''\<rparr>]) None
   = Some (Inr \<lparr>reqKeyConditionExpression = [''#pk = :pk'', ''#sk = :sk''],
                reqExpressionAttributeNames =
                  [(''#pk'', ''pk''), (''#sk'', ''sk''), (''#a'', ''a''), (''#b'', ''b'')],
                reqExpressionAttributeValues =
                  [('':pk'', AStr ''p''), ('':sk'', AStr ''v''), ('':a'', AStr ''1''),
                   ('':b'', AStr ''2'')],
                reqFilterExpression = [''#a <> :a'', ''contains(#b, :b)''],
                draws = 0\<rparr>)
   \<and> getList (\<lambda>i. ''4fzyo82mvyq'') ''tbl''
     (request (VStr ''p'')
        [\<lparr>field = ''sk'', fvalue = VStr ''v'', value2 = VUndefined, operator = ''eq''\<rparr>,
         \<lparr>field = ''a'', fvalue = VStr ''1'', value2 = VUndefined, operator = ''neq''\<rparr>,
         \<lparr>field = ''b'', fvalue = VStr ''2'', value2 = VUndefined, operator = ''contains''\<rparr>]) None
   = Some (Inr \<lparr>TableName = ''tbl'',
                KeyConditionExpression = ''#pk = :pkAND#sk = :sk'',
                ExpressionAttributeNames =
                  [(''#pk'', ''pk''), (''#sk'', ''sk''), (''#a'', ''a''), (''#b'', ''b'')],
                ExpressionAttributeValues =
                  [('':pk'', AStr ''p''), ('':sk'', AStr ''v''), ('':a'', AStr ''1''),
                   ('':b'', AStr ''2'')],
                ScanIndexForward = True, Limit = None, IndexName = None,
                ExclusiveStartKey = None,
                FilterExpression = Some ''#a <> :aANDcontains(#b, :b)''\<rparr>)"
  using getList_join_bare [of "\<lambda>i. ''4fzyo82mvyq''"
     "request (VStr ''p'')
        [\<lparr>field = ''sk'', fvalue = VStr ''v'', value2 = VUndefined, operator = ''eq''\<rparr>,
         \<lparr>field = ''a'', fvalue = VStr ''1'', value2 = VUndefined, operator = ''neq''\<rparr>,
         \<lparr>field = ''b'', fvalue = VStr ''2'', value2 = VUndefined, operator = ''contains''\<rparr>]"
     None
     "\<lparr>reqKeyConditionExpression = [''#pk = :pk'', ''#sk = :sk''],
                reqExpressionAttributeNames =
                  [(''#pk'', ''pk''), (''#sk'', ''sk''), (''#a'', ''a''), (''#b'', ''b'')],
                reqExpressionAttributeValues =
                  [('':pk'', AStr ''p''), ('':sk'', AStr ''v''), ('':a'', AStr ''1''),
                   ('':b'', AStr ''2'')],
                reqFilterExpression = [''#a <> :a'', ''contains(#b, :b)''],
                draws = 0\<rparr>"
     "''tbl''"
     "\<lparr>TableName = ''tbl'',
                KeyConditionExpression = ''#pk = :pkAND#sk = :sk'',
                ExpressionAttributeNames =
                  [(''#pk'', ''pk''), (''#sk'', ''sk''), (''#a'', ''a''), (''#b'', ''b'')],
                ExpressionAttributeValues =
                  [('':pk'', AStr ''p''), ('':sk'', AStr ''v''), ('':a'', AStr ''1''),
                   ('':b'', AStr ''2'')],
                ScanIndexForward = True, Limit = None, IndexName = None,
                ExclusiveStartKey = None,
                FilterExpression = Some ''#a <> :aANDcontains(#b, :b)''\<rparr>"]
  by (simp add: query_defs)

subsection \<open>Placeholders of the filters\<close>

text \<open>
  Claim C4 at two \<open>between\<close> filters on the field \<open>amount\<close>, with bounds 10, 20 and
  30, 40. The second value placeholder gets a hash, but both filters write the one
  placeholder \<open>:amount2\<close>: the compiled attribute-value map has four entries for five
  writes, \<open>:amount2\<close> holds 40, and the first filter's fragment now reads
  "between 10 and 40".
\<close>

theorem value2_placeholder_overwritten:
  "getList (\<lambda>i. ''4fzyo82mvyq'') ''tbl''
     (request (VStr ''user#1'')
        [\<lparr>field = ''amount'', fvalue = VStr ''10'', value2 = VStr ''20'', operator = ''between''\<rparr>,
         \<lparr>field = ''amount'', fvalue = VStr ''30'', value2 = VStr ''40'', operator = ''between''\<rparr>])
     None
   = Some (Inr \<lparr>TableName = ''tbl'',
                KeyConditionExpression = ''#pk = :pk'',
                ExpressionAttributeNames = [(''#pk'', ''pk''), (''#amount'', ''amount'')],
                ExpressionAttributeValues =
                  [('':pk'', AStr ''user#1''), ('':amount'', AStr ''10''),
                   ('':amount2'', AStr ''40''), ('':amount4fzyo82m'', AStr ''30'')],
                ScanIndexForward = True, Limit = None, IndexName = None,
                ExclusiveStartKey = None,
                FilterExpression =
                  Some (''#amount BETWEEN :amount AND :amount2'' @ ''AND'' @
                        ''#amount BETWEEN :amount4fzyo82m AND :amount2'')\<rparr>)"
  by (simp add: query_defs hashGenerator_example)

text \<open>
  Claim C5 at a filter on the field \<open>user.name\<close>: the placeholders are
  \<open>#user.name\<close> and \<open>:user.name\<close>, the field as given, where the sanitized name would
  be \<open>username\<close>. Only the partition-key attribute goes through \<open>replaceSymbol\<close>.
\<close>

theorem filter_field_not_sanitized:
  "getList random ''tbl''
     (request (VStr ''user#1'')
        [\<lparr>field = ''user.name'', fvalue = VStr ''kim'', value2 = VUndefined, operator = ''contains''\<rparr>])
     None
   = Some (Inr \<lparr>TableName = ''tbl'',
                KeyConditionExpression = ''#pk = :pk'',
                ExpressionAttributeNames = [(''#pk'', ''pk''), (''#user.name'', ''user.name'')],
                ExpressionAttributeValues =
                  [('':pk'', AStr ''user#1''), ('':user.name'', AStr ''kim'')],
                ScanIndexForward = True, Limit = None, IndexName = None,
                ExclusiveStartKey = None,
                FilterExpression = Some ''contains(#user.name, :user.name)''\<rparr>)
   \<and> replaceSymbol ''user.name'' [] = ''username''"
  by (simp add: query_defs)

end
